theory Spec2Isabelle
  imports Main
begin

section \<open>Data model of the message board (src/server.js)\<close>

text \<open>
  Object ids and user ids are compared in the handlers through their string form
  (\<^verbatim>\<open>message.userId.toString() !== req.user.userId\<close>), so an id is a string.
  The three schemas share the field name \<^verbatim>\<open>userId\<close>; each record therefore prefixes
  the source's field names with the initial of its schema.
  \<^verbatim>\<open>likes\<close> is a JavaScript number that only ever holds integers here; it is an
  \<open>int\<close>, so that staying non-negative is a property of the handlers and not of the type.
  (A double counts exactly up to \<open>2 ^ 53\<close>; counts beyond that are left out.)
\<close>

type_synonym oid = string

record Message =
  m_name :: string
  m_message :: string
  m_userId :: oid
  m_textColor :: string
  m_images :: "string list"
  m_likes :: int
  m_replies :: "oid list"

record Reply =
  r_messageId :: oid
  r_userId :: oid
  r_reply :: string
  r_createdAt :: nat

record Appeal =
  a_userId :: oid
  a_appealType :: string
  a_report :: string
  a_content :: string

text \<open>The three collections the handlers read and write, each keyed by \<^verbatim>\<open>_id\<close>.\<close>

record db =
  messages :: "oid \<rightharpoonup> Message"
  replies :: "oid \<rightharpoonup> Reply"
  appeals :: "oid \<rightharpoonup> Appeal"

text \<open>
  The payload signed at login and decoded by the middleware into \<^verbatim>\<open>req.user\<close>.
  The user schema has no avatar, so that field may be missing.
\<close>

record claims =
  c_userId :: oid
  c_role :: string
  c_avatar :: "string option"
  c_gender :: string

text \<open>
  A response is its status code and what was sent. The fixed notices of the source
  (plain texts and \<^verbatim>\<open>{ message: ... }\<close> objects) are all \<open>Notice\<close>; a document sent
  back is kept.
\<close>

datatype payload = Notice | MessageDoc Message | ReplyDoc Reply | AppealDoc Appeal

record response =
  status :: nat
  body :: payload

definition send :: "nat \<Rightarrow> payload \<Rightarrow> response" where
  "send code b = \<lparr>status = code, body = b\<rparr>"

text \<open>
  A JSON request body, read field by field: \<open>None\<close> is JavaScript's \<^verbatim>\<open>undefined\<close>.
\<close>

type_synonym req_body = "string \<rightharpoonup> string"

section \<open>The session middleware (src/unnamed/part_001)\<close>

text \<open>\<^verbatim>\<open>s.split(' ')\<close>: the pieces between single spaces, empty pieces included.\<close>

fun split_sp :: "string \<Rightarrow> string list" where
  "split_sp [] = [[]]"
| "split_sp (x # xs) =
     (if x = CHR '' '' then [] # split_sp xs
      else (case split_sp xs of [] \<Rightarrow> [[x]] | w # ws \<Rightarrow> (x # w) # ws))"

text \<open>\<^verbatim>\<open>xs[1]\<close>, undefined when the array is shorter.\<close>

fun second :: "'a list \<Rightarrow> 'a option" where
  "second (_ # t # _) = Some t"
| "second _ = None"

text \<open>
  \<^verbatim>\<open>jwt.verify(token, SECRET_KEY)\<close> belongs to the jsonwebtoken library: it returns the
  decoded payload or throws. The middleware takes it as a parameter; the two errors
  stand for a bad signature or malformed token, and for a token past its expiry.
\<close>

datatype verify_result = Decoded claims | JsonWebTokenError | TokenExpiredError

datatype auth_outcome = Rejected response | Next claims

definition authMiddleware :: "(string \<Rightarrow> verify_result) \<Rightarrow> string option \<Rightarrow> auth_outcome" where
  "authMiddleware verify authorizationHeader =
     (case authorizationHeader of
        None \<Rightarrow> Rejected (send 401 Notice)
      | Some h \<Rightarrow>
          if h = [] then Rejected (send 401 Notice)
          else let token = second (split_sp h) in
            (case token of
               None \<Rightarrow> Rejected (send 401 Notice)
             | Some t \<Rightarrow>
                 if t = [] then Rejected (send 401 Notice)
                 else (case verify t of
                         Decoded decoded \<Rightarrow> Next decoded
                       | JsonWebTokenError \<Rightarrow> Rejected (send 403 Notice)
                       | TokenExpiredError \<Rightarrow> Rejected (send 403 Notice))))"

text \<open>
  \<^verbatim>\<open>app.METHOD(path, authMiddleware, handler)\<close>: the handler runs only when the
  middleware calls \<^verbatim>\<open>next()\<close>, with \<^verbatim>\<open>req.user\<close> set to the decoded claims.
\<close>

definition protected ::
  "(string \<Rightarrow> verify_result) \<Rightarrow> string option \<Rightarrow> (claims \<Rightarrow> db \<Rightarrow> response \<times> db) \<Rightarrow> db
     \<Rightarrow> response \<times> db" where
  "protected verify authorizationHeader handler d =
     (case authMiddleware verify authorizationHeader of
        Rejected r \<Rightarrow> (r, d)
      | Next user \<Rightarrow> handler user d)"

section \<open>The route handlers (src/server.js)\<close>

text \<open>
  Every handler body is a \<^verbatim>\<open>try\<close> whose \<^verbatim>\<open>catch\<close> answers 500. What can throw
  inside are the awaited calls to the storage library (a lost connection, an id that
  does not cast, a schema validation that fails on save). The library is not part of
  the repository, so each handler takes \<open>throws\<close>: \<open>throws k\<close> says that the
  \<open>k\<close>-th awaited storage call of this request (counted from 0) throws, without
  having changed the collection.
\<close>

definition deleteMessage :: "(nat \<Rightarrow> bool) \<Rightarrow> claims \<Rightarrow> oid \<Rightarrow> db \<Rightarrow> response \<times> db" where
  "deleteMessage throws user mid d =
     (if throws 0 then (send 500 Notice, d)
      else case messages d mid of
        None \<Rightarrow> (send 404 Notice, d)
      | Some message \<Rightarrow>
          if m_userId message \<noteq> c_userId user \<and> c_role user \<noteq> ''admin''
          then (send 403 Notice, d)
          else if throws 1 then (send 500 Notice, d)
          else (send 200 Notice, d\<lparr>messages := (messages d)(mid := None)\<rparr>))"

definition editMessage ::
  "(nat \<Rightarrow> bool) \<Rightarrow> claims \<Rightarrow> oid \<Rightarrow> req_body \<Rightarrow> db \<Rightarrow> response \<times> db" where
  "editMessage throws user mid reqBody d =
     (let name = reqBody ''name'';
          message = reqBody ''message'';
          textColor = reqBody ''textColor''
      in if throws 0 then (send 500 Notice, d)
      else case messages d mid of
        None \<Rightarrow> (send 404 Notice, d)
      | Some messageToUpdate \<Rightarrow>
          if m_userId messageToUpdate \<noteq> c_userId user then (send 403 Notice, d)
          else
            let m1 = (case name of None \<Rightarrow> messageToUpdate
                      | Some v \<Rightarrow> messageToUpdate\<lparr>m_name := v\<rparr>);
                m2 = (case message of None \<Rightarrow> m1 | Some v \<Rightarrow> m1\<lparr>m_message := v\<rparr>);
                m3 = (case textColor of None \<Rightarrow> m2 | Some v \<Rightarrow> m2\<lparr>m_textColor := v\<rparr>)
            in if throws 1 then (send 500 Notice, d)
               else (send 200 (MessageDoc m3), d\<lparr>messages := (messages d)(mid \<mapsto> m3)\<rparr>))"

definition likeMessage :: "(nat \<Rightarrow> bool) \<Rightarrow> claims \<Rightarrow> oid \<Rightarrow> db \<Rightarrow> response \<times> db" where
  "likeMessage throws user mid d =
     (if throws 0 then (send 500 Notice, d)
      else case messages d mid of
        None \<Rightarrow> (send 404 Notice, d)
      | Some message \<Rightarrow>
          let message' = message\<lparr>m_likes := m_likes message + 1\<rparr>
          in if throws 1 then (send 500 Notice, d)
             else (send 200 (MessageDoc message'),
                   d\<lparr>messages := (messages d)(mid \<mapsto> message')\<rparr>))"

definition unlikeMessage :: "(nat \<Rightarrow> bool) \<Rightarrow> claims \<Rightarrow> oid \<Rightarrow> db \<Rightarrow> response \<times> db" where
  "unlikeMessage throws user mid d =
     (if throws 0 then (send 500 Notice, d)
      else case messages d mid of
        None \<Rightarrow> (send 404 Notice, d)
      | Some message \<Rightarrow>
          let message' = (if m_likes message > 0
                          then message\<lparr>m_likes := m_likes message - 1\<rparr> else message)
          in if throws 1 then (send 500 Notice, d)
             else (send 200 (MessageDoc message'),
                   d\<lparr>messages := (messages d)(mid \<mapsto> message')\<rparr>))"

text \<open>
  \<^verbatim>\<open>Reply.create\<close> chooses the new document's \<^verbatim>\<open>_id\<close> and \<^verbatim>\<open>createdAt\<close>; they are the
  parameters \<open>newId\<close> and \<open>now\<close>. \<^verbatim>\<open>Message.findByIdAndUpdate\<close> changes the message
  when there is one and does nothing (and does not throw) when there is none.
\<close>

definition createReply ::
  "(nat \<Rightarrow> bool) \<Rightarrow> oid \<Rightarrow> nat \<Rightarrow> claims \<Rightarrow> oid \<Rightarrow> req_body \<Rightarrow> db \<Rightarrow> response \<times> db" where
  "createReply throws newId now user mid reqBody d =
     (let reply = reqBody ''reply''
      in case reply of
        None \<Rightarrow> (send 400 Notice, d)
      | Some text \<Rightarrow>
          if text = [] then (send 400 Notice, d)
          else
            let messageId = mid
            in if throws 0 then (send 500 Notice, d)
            else
              let newReply = \<lparr>r_messageId = messageId, r_userId = c_userId user,
                                r_reply = text, r_createdAt = now\<rparr>;
                  d1 = d\<lparr>replies := (replies d)(newId \<mapsto> newReply)\<rparr>
              in if throws 1 then (send 500 Notice, d1)
              else
                (send 201 (ReplyDoc newReply),
                 (case messages d1 messageId of
                    None \<Rightarrow> d1
                  | Some m \<Rightarrow>
                      d1\<lparr>messages :=
                           (messages d1)(messageId \<mapsto> m\<lparr>m_replies := m_replies m @ [newId]\<rparr>)\<rparr>)))"

text \<open>
  An id taken from the URL reaches the store through calls of the storage library
  (\<^verbatim>\<open>findById\<close>, \<^verbatim>\<open>findByIdAndDelete\<close>, \<^verbatim>\<open>deleteOne({ _id })\<close>), which cast the
  string to an ObjectId first; a handler's id parameter stands for that cast id. The
  one place where the raw URL string is compared is the list filter of the reply
  deletion (\<^verbatim>\<open>r.toString() !== replyId\<close>), so that handler takes the reply id as
  the raw string and casts it where the source's calls do.

  The string form of an ObjectId is its 24 hexadecimal digits in lower case:
  \<open>castId\<close> is the string form of the cast of a 24-digit string, which may be written
  with upper-case digits. A string that does not cast makes the call throw, which is
  a case of \<open>throws\<close>.
\<close>

definition hex_lower :: "char \<Rightarrow> char" where
  "hex_lower c =
     (if c = CHR ''A'' then CHR ''a'' else if c = CHR ''B'' then CHR ''b''
      else if c = CHR ''C'' then CHR ''c'' else if c = CHR ''D'' then CHR ''d''
      else if c = CHR ''E'' then CHR ''e'' else if c = CHR ''F'' then CHR ''f'' else c)"

definition castId :: "string \<Rightarrow> oid" where
  "castId s = map hex_lower s"

definition deleteReply ::
  "(nat \<Rightarrow> bool) \<Rightarrow> claims \<Rightarrow> oid \<Rightarrow> string \<Rightarrow> db \<Rightarrow> response \<times> db" where
  "deleteReply throws user messageId replyId d =
     (if throws 0 then (send 500 Notice, d)
      else case messages d messageId of
        None \<Rightarrow> (send 404 Notice, d)
      | Some message \<Rightarrow>
          if throws 1 then (send 500 Notice, d)
          else (case replies d (castId replyId) of
            None \<Rightarrow> (send 404 Notice, d)
          | Some reply \<Rightarrow>
              if r_userId reply \<noteq> c_userId user \<and> c_role user \<noteq> ''admin''
              then (send 403 Notice, d)
              else if throws 2 then (send 500 Notice, d)
              else
                let d1 = d\<lparr>replies := (replies d)(castId replyId := None)\<rparr>;
                    message' = message\<lparr>m_replies :=
                                 filter (\<lambda>r. r \<noteq> replyId) (m_replies message)\<rparr>
                in if throws 3 then (send 500 Notice, d1)
                   else (send 200 Notice,
                         d1\<lparr>messages := (messages d1)(messageId \<mapsto> message')\<rparr>)))"

definition deleteAppeal :: "(nat \<Rightarrow> bool) \<Rightarrow> claims \<Rightarrow> oid \<Rightarrow> db \<Rightarrow> response \<times> db" where
  "deleteAppeal throws user aid d =
     (if throws 0 then (send 500 Notice, d)
      else (send 200 Notice, d\<lparr>appeals := (appeals d)(aid := None)\<rparr>))"

section \<open>Sequences of like and unlike requests\<close>

text \<open>
  A like or unlike request as the server receives it: the behaviour of the storage
  calls during that request, the caller, and the route with its message id. Serving a
  list of them threads the store through the handlers in order.
\<close>

datatype like_request = Like oid | Unlike oid

fun serve_like :: "(nat \<Rightarrow> bool) \<times> claims \<times> like_request \<Rightarrow> db \<Rightarrow> db" where
  "serve_like (throws, user, Like mid) d = snd (likeMessage throws user mid d)"
| "serve_like (throws, user, Unlike mid) d = snd (unlikeMessage throws user mid d)"

definition serve_likes ::
  "((nat \<Rightarrow> bool) \<times> claims \<times> like_request) list \<Rightarrow> db \<Rightarrow> db" where
  "serve_likes reqs d = fold serve_like reqs d"

definition likes_nonneg :: "db \<Rightarrow> bool" where
  "likes_nonneg d = (\<forall>i m. messages d i = Some m \<longrightarrow> 0 \<le> m_likes m)"

section \<open>A small board, for concrete runs\<close>

text \<open>
  Two users and an administrator; alice's message with bob's reply under it, and a
  message of bob's without replies. No storage call throws under \<open>no_fault\<close>; under
  \<open>save_fails\<close> the fourth one does.
\<close>

abbreviation msgA_id :: oid where "msgA_id \<equiv> ''650000000000000000000b01''"
abbreviation msgB_id :: oid where "msgB_id \<equiv> ''650000000000000000000b02''"
abbreviation absent_id :: oid where "absent_id \<equiv> ''650000000000000000000b09''"
abbreviation reply1_id :: oid where "reply1_id \<equiv> ''650000000000000000000c01''"
abbreviation fresh_id :: oid where "fresh_id \<equiv> ''650000000000000000000c02''"

definition no_fault :: "nat \<Rightarrow> bool" where
  "no_fault k = False"

definition save_fails :: "nat \<Rightarrow> bool" where
  "save_fails k = (k = 3)"

definition alice :: claims where
  "alice = \<lparr>c_userId = ''650000000000000000000a01'', c_role = ''user'',
            c_avatar = None, c_gender = ''female''\<rparr>"

definition bob :: claims where
  "bob = \<lparr>c_userId = ''650000000000000000000a02'', c_role = ''user'',
          c_avatar = None, c_gender = ''male''\<rparr>"

definition root :: claims where
  "root = \<lparr>c_userId = ''650000000000000000000a00'', c_role = ''admin'',
           c_avatar = None, c_gender = ''female''\<rparr>"

definition msgA :: Message where
  "msgA = \<lparr>m_name = ''alice'', m_message = ''hi'', m_userId = ''650000000000000000000a01'',
           m_textColor = ''#000'', m_images = [], m_likes = 0, m_replies = [reply1_id]\<rparr>"

definition msgB :: Message where
  "msgB = \<lparr>m_name = ''bob'', m_message = ''yo'', m_userId = ''650000000000000000000a02'',
           m_textColor = ''#f00'', m_images = [''1-a.png''], m_likes = 2, m_replies = []\<rparr>"

definition reply1 :: Reply where
  "reply1 = \<lparr>r_messageId = msgA_id, r_userId = ''650000000000000000000a02'',
             r_reply = ''hello'', r_createdAt = 5\<rparr>"

definition board :: db where
  "board = \<lparr>messages = [msgA_id \<mapsto> msgA, msgB_id \<mapsto> msgB],
            replies = [reply1_id \<mapsto> reply1],
            appeals = Map.empty\<rparr>"

text \<open>A verifier that knows one good token (alice's) and one expired token.\<close>

definition verify0 :: "string \<Rightarrow> verify_result" where
  "verify0 t = (if t = ''good'' then Decoded alice
                else if t = ''old'' then TokenExpiredError else JsonWebTokenError)"

section \<open>Who may delete\<close>

text \<open>
  C1. Deleting an existing message: the message is removed exactly when the caller's
  userId is the message's userId or the caller's role is admin (and the two storage
  calls do not throw), and then nothing else in the store changes; a caller who is
  neither is answered 403 and the store is unchanged. Deleting an existing reply
  under an existing message: the same, with the reply's userId and the three storage
  calls up to the removal. Neither half depends on what the other collection holds.
\<close>

theorem delete_owner_or_admin:
  "(messages d mid = Some m \<longrightarrow>
      (messages (snd (deleteMessage throws user mid d)) mid = None
         \<longleftrightarrow> (m_userId m = c_userId user \<or> c_role user = ''admin'')
              \<and> \<not> throws 0 \<and> \<not> throws 1)
      \<and> ((m_userId m = c_userId user \<or> c_role user = ''admin'')
            \<and> \<not> throws 0 \<and> \<not> throws 1
          \<longrightarrow> deleteMessage throws user mid d
                = (send 200 Notice, d\<lparr>messages := (messages d)(mid := None)\<rparr>))
      \<and> (\<not> (m_userId m = c_userId user \<or> c_role user = ''admin'') \<and> \<not> throws 0
          \<longrightarrow> deleteMessage throws user mid d = (send 403 Notice, d)))
   \<and> (messages d mid = Some m \<and> replies d (castId rid) = Some r \<longrightarrow>
      (replies (snd (deleteReply throws user mid rid d)) (castId rid) = None
         \<longleftrightarrow> (r_userId r = c_userId user \<or> c_role user = ''admin'')
              \<and> \<not> throws 0 \<and> \<not> throws 1 \<and> \<not> throws 2)
      \<and> (\<not> (r_userId r = c_userId user \<or> c_role user = ''admin'')
            \<and> \<not> throws 0 \<and> \<not> throws 1
          \<longrightarrow> deleteReply throws user mid rid d = (send 403 Notice, d)))"
  by (auto simp add: deleteMessage_def deleteReply_def Let_def)

theorem delete_owner_or_admin_witness:
  "messages board msgA_id = Some msgA \<and> replies board (castId reply1_id) = Some reply1
   \<and> messages (board\<lparr>replies := Map.empty\<rparr>) msgA_id = Some msgA
   \<and> deleteMessage no_fault bob msgA_id (board\<lparr>replies := Map.empty\<rparr>)
        = (send 403 Notice, board\<lparr>replies := Map.empty\<rparr>)
   \<and> deleteMessage no_fault bob msgA_id board = (send 403 Notice, board)
   \<and> messages (snd (deleteMessage no_fault alice msgA_id board)) msgA_id = None
   \<and> messages (snd (deleteMessage no_fault root msgA_id board)) msgA_id = None
   \<and> deleteReply no_fault alice msgA_id reply1_id board = (send 403 Notice, board)
   \<and> replies (snd (deleteReply no_fault bob msgA_id reply1_id board)) reply1_id = None
   \<and> replies (snd (deleteReply no_fault root msgA_id reply1_id board)) reply1_id = None"
proof -
  have stored: "messages board msgA_id = Some msgA"
    "replies board (castId reply1_id) = Some reply1"
    "messages (board\<lparr>replies := Map.empty\<rparr>) msgA_id = Some msgA"
    by (simp_all add: board_def castId_def hex_lower_def)
  have same: "castId reply1_id = reply1_id"
    by (simp add: castId_def hex_lower_def)
  have ok: "\<not> no_fault 0" "\<not> no_fault 1" "\<not> no_fault 2"
    by (simp_all add: no_fault_def)
  have who: "m_userId msgA = c_userId alice" "m_userId msgA \<noteq> c_userId bob"
    "c_role bob \<noteq> ''admin''" "c_role root = ''admin''"
    "r_userId reply1 = c_userId bob" "r_userId reply1 \<noteq> c_userId alice"
    "c_role alice \<noteq> ''admin''"
    by (simp_all add: msgA_def reply1_def alice_def bob_def root_def)
  show ?thesis
    using stored ok who
      delete_owner_or_admin [of "board\<lparr>replies := Map.empty\<rparr>" msgA_id msgA no_fault bob]
      delete_owner_or_admin [of board msgA_id msgA no_fault bob reply1_id reply1]
      delete_owner_or_admin [of board msgA_id msgA no_fault alice reply1_id reply1]
      delete_owner_or_admin [of board msgA_id msgA no_fault root reply1_id reply1]
    by (simp add: same)
qed

section \<open>The session middleware\<close>

lemma split_sp_no_space: "CHR '' '' \<notin> set t \<Longrightarrow> split_sp t = [t]"
  by (induction t) auto

text \<open>
  C2. A protected route answers 401 and leaves the store alone, whatever its handler,
  when the Authorization header is missing or empty, or is \<^verbatim>\<open>Bearer\<close> with nothing
  after it, or more generally has no non-empty second piece. With a token, a
  verification that throws (bad signature or expired) answers 403, again without the
  handler; a verification that succeeds hands exactly the decoded claims to the handler,
  which starts from the unchanged store. The token of \<^verbatim>\<open>Bearer t\<close> is \<open>t\<close>.
\<close>

theorem authMiddleware_gate:
  "(hdr = None \<or> hdr = Some [] \<or> hdr = Some ''Bearer'' \<or> hdr = Some ''Bearer ''
      \<longrightarrow> protected verify hdr handler d = (send 401 Notice, d))
   \<and> (hdr = Some h \<and> (second (split_sp h) = None \<or> second (split_sp h) = Some [])
      \<longrightarrow> protected verify hdr handler d = (send 401 Notice, d))
   \<and> (hdr = Some h \<and> second (split_sp h) = Some t \<and> t \<noteq> []
        \<and> (verify t = JsonWebTokenError \<or> verify t = TokenExpiredError)
      \<longrightarrow> protected verify hdr handler d = (send 403 Notice, d))
   \<and> (hdr = Some h \<and> second (split_sp h) = Some t \<and> t \<noteq> [] \<and> verify t = Decoded c
      \<longrightarrow> authMiddleware verify hdr = Next c
          \<and> protected verify hdr handler d = handler c d)
   \<and> (CHR '' '' \<notin> set t \<longrightarrow> second (split_sp (''Bearer '' @ t)) = Some t)"
  by (auto simp add: protected_def authMiddleware_def Let_def split_sp_no_space)

theorem authMiddleware_gate_witness:
  "protected verify0 None (\<lambda>u. likeMessage no_fault u msgA_id) board
     = (send 401 Notice, board)
   \<and> protected verify0 (Some ''Bearer '') (\<lambda>u. likeMessage no_fault u msgA_id) board
     = (send 401 Notice, board)
   \<and> second (split_sp ''Bearer old'') = Some ''old'' \<and> verify0 ''old'' = TokenExpiredError
   \<and> protected verify0 (Some ''Bearer old'') (\<lambda>u. likeMessage no_fault u msgA_id) board
     = (send 403 Notice, board)
   \<and> second (split_sp ''Bearer good'') = Some ''good'' \<and> verify0 ''good'' = Decoded alice
   \<and> protected verify0 (Some ''Bearer good'') (\<lambda>u. likeMessage no_fault u msgA_id) board
     = likeMessage no_fault alice msgA_id board"
  using authMiddleware_gate [of None verify0 "\<lambda>u. likeMessage no_fault u msgA_id" board]
    authMiddleware_gate [of "Some ''Bearer ''" verify0
       "\<lambda>u. likeMessage no_fault u msgA_id" board]
    authMiddleware_gate [of "Some ''Bearer old''" verify0
       "\<lambda>u. likeMessage no_fault u msgA_id" board "''Bearer old''" "''old''"]
    authMiddleware_gate [of "Some ''Bearer good''" verify0
       "\<lambda>u. likeMessage no_fault u msgA_id" board "''Bearer good''" "''good''" alice]
  by (simp add: verify0_def)

section \<open>Editing a message\<close>

text \<open>
  C3. Editing an existing message of another user changes nothing and is answered 403
  (500 if loading the message throws), whatever the caller's role: the test of
  \<^verbatim>\<open>PUT /api/messages/:id\<close> compares user ids only, so an administrator is refused
  like anyone else.
\<close>

theorem editMessage_owner_only:
  assumes "messages d mid = Some m" and "m_userId m \<noteq> c_userId user"
  shows "editMessage throws user mid reqBody d
           = (send (if throws 0 then 500 else 403) Notice, d)"
  using assms by (simp add: editMessage_def Let_def)

theorem editMessage_owner_only_witness:
  "messages board msgA_id = Some msgA
   \<and> m_userId msgA \<noteq> c_userId root \<and> c_role root = ''admin''
   \<and> editMessage no_fault root msgA_id [''message'' \<mapsto> ''edited''] board
        = (send 403 Notice, board)"
  using editMessage_owner_only [of board msgA_id msgA root no_fault
          "[''message'' \<mapsto> ''edited'']"]
  by (simp add: board_def msgA_def root_def no_fault_def)

text \<open>
  C8. An edit of an existing message by its owner either fails on a storage call (500,
  nothing changed) or answers 200 and stores the message with name, message and
  textColor replaced by the values the request body gives for those keys, each kept
  when its key is absent. In both cases userId, images, likes and replies are those of
  the stored message whatever else the body holds, and no other document changes.
\<close>

theorem editMessage_partial:
  assumes "messages d mid = Some m" and "m_userId m = c_userId user"
  shows "editMessage throws user mid reqBody d =
     (if throws 0 \<or> throws 1 then (send 500 Notice, d)
      else
       (send 200 (MessageDoc
          (m\<lparr>m_name := (case reqBody ''name'' of None \<Rightarrow> m_name m | Some v \<Rightarrow> v),
             m_message := (case reqBody ''message'' of None \<Rightarrow> m_message m | Some v \<Rightarrow> v),
             m_textColor :=
               (case reqBody ''textColor'' of None \<Rightarrow> m_textColor m | Some v \<Rightarrow> v)\<rparr>)),
        d\<lparr>messages := (messages d)(mid \<mapsto>
           m\<lparr>m_name := (case reqBody ''name'' of None \<Rightarrow> m_name m | Some v \<Rightarrow> v),
             m_message := (case reqBody ''message'' of None \<Rightarrow> m_message m | Some v \<Rightarrow> v),
             m_textColor :=
               (case reqBody ''textColor'' of None \<Rightarrow> m_textColor m | Some v \<Rightarrow> v)\<rparr>)\<rparr>))
   \<and> map_option m_userId (messages (snd (editMessage throws user mid reqBody d)) mid)
        = Some (m_userId m)
   \<and> map_option m_images (messages (snd (editMessage throws user mid reqBody d)) mid)
        = Some (m_images m)
   \<and> map_option m_likes (messages (snd (editMessage throws user mid reqBody d)) mid)
        = Some (m_likes m)
   \<and> map_option m_replies (messages (snd (editMessage throws user mid reqBody d)) mid)
        = Some (m_replies m)
   \<and> (\<forall>i. i \<noteq> mid \<longrightarrow>
         messages (snd (editMessage throws user mid reqBody d)) i = messages d i)
   \<and> replies (snd (editMessage throws user mid reqBody d)) = replies d
   \<and> appeals (snd (editMessage throws user mid reqBody d)) = appeals d"
  using assms by (simp add: editMessage_def Let_def split: option.splits)

theorem editMessage_partial_witness:
  "messages board msgA_id = Some msgA \<and> m_userId msgA = c_userId alice
   \<and> messages
        (snd (editMessage no_fault alice msgA_id
               [''message'' \<mapsto> ''edited'', ''likes'' \<mapsto> ''99'', ''userId'' \<mapsto> ''x''] board))
        msgA_id
      = Some (msgA\<lparr>m_message := ''edited''\<rparr>)"
  using editMessage_partial [of board msgA_id msgA alice no_fault
          "[''message'' \<mapsto> ''edited'', ''likes'' \<mapsto> ''99'', ''userId'' \<mapsto> ''x'']"]
  by (simp add: board_def msgA_def alice_def no_fault_def)

section \<open>Likes\<close>

lemma likeMessage_nonneg:
  "likes_nonneg d \<Longrightarrow> likes_nonneg (snd (likeMessage throws user mid d))"
  by (auto simp add: likes_nonneg_def likeMessage_def Let_def split: option.splits if_splits)

lemma unlikeMessage_nonneg:
  "likes_nonneg d \<Longrightarrow> likes_nonneg (snd (unlikeMessage throws user mid d))"
  by (auto simp add: likes_nonneg_def unlikeMessage_def Let_def split: option.splits if_splits)

lemma serve_like_nonneg:
  assumes inv: "likes_nonneg d"
  shows "likes_nonneg (serve_like rq d)"
proof -
  obtain throws user op where rq: "rq = (throws, user, op)"
    by (cases rq) auto
  show ?thesis
    by (cases op) (simp_all add: rq inv likeMessage_nonneg unlikeMessage_nonneg)
qed

lemma serve_likes_nonneg: "likes_nonneg d \<Longrightarrow> likes_nonneg (serve_likes reqs d)"
  unfolding serve_likes_def
  by (induction reqs arbitrary: d) (simp_all add: serve_like_nonneg)

text \<open>
  C4. On an existing message, when the two storage calls succeed, like answers 200 and
  stores the count plus one, whatever the count; unlike answers 200 and stores the
  count minus one when it is positive and the same count otherwise, so at 0 it stays 0.
  A store whose counts are all non-negative keeps that through any list of like and
  unlike requests, also those that fail.
\<close>

theorem likes_never_negative:
  "(messages d mid = Some m \<and> \<not> throws 0 \<and> \<not> throws 1 \<longrightarrow>
      likeMessage throws user mid d
        = (send 200 (MessageDoc (m\<lparr>m_likes := m_likes m + 1\<rparr>)),
           d\<lparr>messages := (messages d)(mid \<mapsto> m\<lparr>m_likes := m_likes m + 1\<rparr>)\<rparr>)
      \<and> unlikeMessage throws user mid d
        = (send 200 (MessageDoc
             (m\<lparr>m_likes := (if 0 < m_likes m then m_likes m - 1 else m_likes m)\<rparr>)),
           d\<lparr>messages := (messages d)(mid \<mapsto>
             m\<lparr>m_likes := (if 0 < m_likes m then m_likes m - 1 else m_likes m)\<rparr>)\<rparr>)
      \<and> (m_likes m = 0 \<longrightarrow>
           status (fst (unlikeMessage throws user mid d)) = 200
           \<and> map_option m_likes (messages (snd (unlikeMessage throws user mid d)) mid)
               = Some 0))
   \<and> (likes_nonneg d \<longrightarrow> likes_nonneg (serve_likes reqs d))"
  by (simp add: likeMessage_def unlikeMessage_def Let_def send_def serve_likes_nonneg)

theorem likes_never_negative_witness:
  "messages board msgA_id = Some msgA \<and> m_likes msgA = 0 \<and> likes_nonneg board
   \<and> status (fst (unlikeMessage no_fault bob msgA_id board)) = 200
   \<and> map_option m_likes (messages (snd (unlikeMessage no_fault bob msgA_id board)) msgA_id)
        = Some 0
   \<and> map_option m_likes (messages (snd (likeMessage no_fault bob msgA_id board)) msgA_id)
        = Some 1
   \<and> likes_nonneg (serve_likes [(no_fault, bob, Like msgA_id), (no_fault, bob, Unlike msgA_id),
                                 (no_fault, alice, Unlike msgA_id)] board)"
proof -
  have nn: "likes_nonneg board"
    by (auto simp add: likes_nonneg_def board_def msgA_def msgB_def split: if_splits)
  have stored: "messages board msgA_id = Some msgA"
    by (simp add: board_def)
  have zero: "m_likes msgA = 0"
    by (simp add: msgA_def)
  have ok: "\<not> no_fault 0" "\<not> no_fault 1"
    by (simp_all add: no_fault_def)
  show ?thesis
    using nn stored zero ok
      likes_never_negative [of board msgA_id msgA no_fault bob
        "[(no_fault, bob, Like msgA_id), (no_fault, bob, Unlike msgA_id),
          (no_fault, alice, Unlike msgA_id)]"]
    by (simp add: send_def)
qed

section \<open>Replies\<close>

text \<open>
  C5. The reply route tests the text only. With a non-empty text and an id that names
  no message, the handler stores the reply and answers 201 with it; the message update
  that follows finds nothing and changes nothing. (An empty text is answered 400.)
\<close>

theorem createReply_orphan:
  "messages board absent_id = None
   \<and> createReply no_fault fresh_id 9 alice absent_id [''reply'' \<mapsto> ''hi''] board
      = (send 201 (ReplyDoc \<lparr>r_messageId = absent_id,
                              r_userId = ''650000000000000000000a01'',
                              r_reply = ''hi'', r_createdAt = 9\<rparr>),
         board\<lparr>replies := (replies board)(fresh_id \<mapsto>
                  \<lparr>r_messageId = absent_id, r_userId = ''650000000000000000000a01'',
                   r_reply = ''hi'', r_createdAt = 9\<rparr>)\<rparr>)
   \<and> createReply no_fault fresh_id 9 alice absent_id [''reply'' \<mapsto> []] board
      = (send 400 Notice, board)"
  by (simp add: createReply_def board_def no_fault_def alice_def Let_def)

text \<open>
  C6. The reply collection is addressed by the cast id, the list filter by the raw
  string of the URL. Bob deletes his reply under alice's message, writing the reply's
  id with an upper-case digit: the handler answers 200 and the reply is removed, but
  the filter drops nothing and the message still lists the removed reply's id. (With
  the id written in lower case the list is filtered; and when the final save throws,
  the reply is already removed and the list is not.)
\<close>

theorem deleteReply_uppercase_keeps_id:
  "messages board msgA_id = Some msgA \<and> replies board reply1_id = Some reply1
   \<and> r_userId reply1 = c_userId bob \<and> m_replies msgA = [reply1_id]
   \<and> castId ''650000000000000000000C01'' = reply1_id
   \<and> fst (deleteReply no_fault bob msgA_id ''650000000000000000000C01'' board)
        = send 200 Notice
   \<and> replies (snd (deleteReply no_fault bob msgA_id ''650000000000000000000C01'' board))
        reply1_id = None
   \<and> messages (snd (deleteReply no_fault bob msgA_id ''650000000000000000000C01'' board))
        msgA_id = Some msgA
   \<and> messages (snd (deleteReply no_fault bob msgA_id reply1_id board)) msgA_id
        = Some (msgA\<lparr>m_replies := []\<rparr>)
   \<and> deleteReply save_fails bob msgA_id reply1_id board
        = (send 500 Notice, board\<lparr>replies := (replies board)(reply1_id := None)\<rparr>)"
  by (simp add: deleteReply_def board_def msgA_def reply1_def bob_def no_fault_def
        save_fails_def castId_def hex_lower_def Let_def)

text \<open>
  C10. The reply's own messageId is never read. When the request names an existing
  message other than the reply's parent, an authorised deletion whose storage calls
  succeed still answers 200 and removes the reply; the named message's list is
  filtered and every other message is left as it was, so a parent that listed the
  reply still lists the deleted reply's id.
\<close>

theorem deleteReply_ignores_parent:
  assumes "messages d mid = Some m" and "replies d (castId rid) = Some r"
    and "r_messageId r \<noteq> mid"
    and "r_userId r = c_userId user \<or> c_role user = ''admin''"
    and "\<not> throws 0" and "\<not> throws 1" and "\<not> throws 2" and "\<not> throws 3"
  shows "fst (deleteReply throws user mid rid d) = send 200 Notice
       \<and> replies (snd (deleteReply throws user mid rid d)) (castId rid) = None
       \<and> messages (snd (deleteReply throws user mid rid d)) mid
            = Some (m\<lparr>m_replies := filter (\<lambda>x. x \<noteq> rid) (m_replies m)\<rparr>)
       \<and> (\<forall>i. i \<noteq> mid \<longrightarrow>
             messages (snd (deleteReply throws user mid rid d)) i = messages d i)
       \<and> (messages d (r_messageId r) = Some p \<and> castId rid \<in> set (m_replies p) \<longrightarrow>
             messages (snd (deleteReply throws user mid rid d)) (r_messageId r) = Some p
             \<and> castId rid \<in> set (m_replies p))"
  using assms by (auto simp add: deleteReply_def Let_def)

theorem deleteReply_ignores_parent_witness:
  "messages board msgB_id = Some msgB \<and> replies board (castId reply1_id) = Some reply1
   \<and> castId reply1_id = reply1_id
   \<and> r_messageId reply1 = msgA_id \<and> msgA_id \<noteq> msgB_id
   \<and> messages board msgA_id = Some msgA \<and> reply1_id \<in> set (m_replies msgA)
   \<and> r_userId reply1 = c_userId bob
   \<and> fst (deleteReply no_fault bob msgB_id reply1_id board) = send 200 Notice
   \<and> replies (snd (deleteReply no_fault bob msgB_id reply1_id board)) reply1_id = None
   \<and> messages (snd (deleteReply no_fault bob msgB_id reply1_id board)) msgA_id = Some msgA"
proof -
  have same: "castId reply1_id = reply1_id"
    by (simp add: castId_def hex_lower_def)
  have stored: "messages board msgB_id = Some msgB"
    "replies board (castId reply1_id) = Some reply1"
    "messages board msgA_id = Some msgA"
    by (simp_all add: board_def same)
  have rel: "r_messageId reply1 = msgA_id" "r_messageId reply1 \<noteq> msgB_id"
    "reply1_id \<in> set (m_replies msgA)" "r_userId reply1 = c_userId bob"
    by (simp_all add: reply1_def msgA_def bob_def)
  have ok: "\<not> no_fault 0" "\<not> no_fault 1" "\<not> no_fault 2" "\<not> no_fault 3"
    by (simp_all add: no_fault_def)
  show ?thesis
    using same stored rel ok
      deleteReply_ignores_parent [of board msgB_id msgB reply1_id reply1 bob no_fault msgA]
    by simp
qed

section \<open>Deleting a message\<close>

text \<open>
  C9. Deleting a message never touches the reply collection. In particular, after an
  authorised deletion that succeeds the message is gone and every reply whose messageId
  is the deleted message's id is still stored.
\<close>

theorem deleteMessage_keeps_replies:
  "replies (snd (deleteMessage throws user mid d)) = replies d
   \<and> (messages d mid = Some m
        \<and> (m_userId m = c_userId user \<or> c_role user = ''admin'')
        \<and> \<not> throws 0 \<and> \<not> throws 1
        \<and> replies d rid = Some r \<and> r_messageId r = mid
      \<longrightarrow> fst (deleteMessage throws user mid d) = send 200 Notice
          \<and> messages (snd (deleteMessage throws user mid d)) mid = None
          \<and> replies (snd (deleteMessage throws user mid d)) rid = Some r)"
  by (auto simp add: deleteMessage_def split: option.splits)

theorem deleteMessage_keeps_replies_witness:
  "messages board msgA_id = Some msgA \<and> m_userId msgA = c_userId alice
   \<and> replies board reply1_id = Some reply1 \<and> r_messageId reply1 = msgA_id
   \<and> fst (deleteMessage no_fault alice msgA_id board) = send 200 Notice
   \<and> messages (snd (deleteMessage no_fault alice msgA_id board)) msgA_id = None
   \<and> replies (snd (deleteMessage no_fault alice msgA_id board)) reply1_id = Some reply1"
  using deleteMessage_keeps_replies [of no_fault alice msgA_id board msgA reply1_id reply1]
  by (simp add: board_def msgA_def reply1_def alice_def no_fault_def)

section \<open>Appeal deletion\<close>

text \<open>
  C7. Deleting an appeal checks neither owner, role nor existence: for every caller,
  id and store the answer is 200, unless the storage call throws, and then it is 500;
  it is never 403 or 404. On 200 the appeal is gone and nothing else has changed.
\<close>

theorem deleteAppeal_unchecked:
  "status (fst (deleteAppeal throws user aid d)) = (if throws 0 then 500 else 200)
   \<and> status (fst (deleteAppeal throws user aid d)) \<noteq> 403
   \<and> status (fst (deleteAppeal throws user aid d)) \<noteq> 404
   \<and> snd (deleteAppeal throws user aid d) =
       (if throws 0 then d else d\<lparr>appeals := (appeals d)(aid := None)\<rparr>)"
  by (simp add: deleteAppeal_def send_def)

end
